theory Spec2Isabelle
  imports
    Complex_Main
    "HOL-Library.Char_ord"
    "HOL-Library.List_Lexorder"
    "HOL-Library.Product_Lexorder"
    "HOL-Library.Multiset"
begin

section \<open>Configuration (core/config.py)\<close>

definition DEVICE_PRIORITIES :: "(string \<times> nat) list" where
  "DEVICE_PRIORITIES = [(''device_a'', 1), (''device_b'', 2)]"

definition DATA_DIR :: string where
  "DATA_DIR = ''data''"

definition PARQUET_FILE_PREFIX :: string where
  "PARQUET_FILE_PREFIX = ''heart_rate_metrics''"

definition BATCH_SIZE :: nat where
  "BATCH_SIZE = 100"

section \<open>Errors and outcomes\<close>

text \<open>
  A coroutine of \<open>DataStorage\<close> is a function from the state of the object to an
  outcome and the state it leaves behind. \<open>Blocked\<close> is the outcome of a coroutine that
  waits for ever on \<open>write_lock\<close>: it neither returns nor raises. An ordinary method
  returns a value or an error.
\<close>

datatype error = ValueError | KeyError | OverflowError | ComputeError

datatype 'a outcome = Return 'a | Raise error | Blocked

section \<open>Timestamps\<close>

text \<open>
  \<open>timestamp.replace("Z", "+00:00")\<close> of Python replaces every occurrence;
  \<open>pl.col("timestamp").str.replace("Z", "+00:00")\<close> of polars replaces the first one.
\<close>

definition py_replace_Z :: "string \<Rightarrow> string" where
  "py_replace_Z s = concat (map (\<lambda>c. if c = CHR ''Z'' then ''+00:00'' else [c]) s)"

fun pl_replace_Z :: "string \<Rightarrow> string" where
  "pl_replace_Z [] = []"
| "pl_replace_Z (c # cs) = (if c = CHR ''Z'' then ''+00:00'' @ cs else c # pl_replace_Z cs)"

definition is_digit :: "char \<Rightarrow> bool" where
  "is_digit c \<longleftrightarrow> CHR ''0'' \<le> c \<and> c \<le> CHR ''9''"

definition digit_val :: "char \<Rightarrow> nat" where
  "digit_val c = of_char c - 48"

definition number :: "string \<Rightarrow> nat option" where
  "number s = (if s \<noteq> [] \<and> list_all is_digit s
               then Some (foldl (\<lambda>n c. 10 * n + digit_val c) 0 s) else None)"

definition sub :: "string \<Rightarrow> nat \<Rightarrow> nat \<Rightarrow> string" where
  "sub s i n = take n (drop i s)"

definition is_leap :: "nat \<Rightarrow> bool" where
  "is_leap y \<longleftrightarrow> y mod 4 = 0 \<and> (y mod 400 = 0 \<or> y mod 100 \<noteq> 0)"

definition days_in_month :: "nat \<Rightarrow> nat \<Rightarrow> nat" where
  "days_in_month y m =
     (if m = 2 then (if is_leap y then 29 else 28)
      else if m = 4 \<or> m = 6 \<or> m = 9 \<or> m = 11 then 30 else 31)"

text \<open>An aware \<open>datetime\<close>: the civil fields as written, and the UTC offset in minutes.\<close>

record datetime =
  year :: nat
  month :: nat
  day :: nat
  hour :: nat
  minute :: nat
  second :: nat
  utcoffset :: int

text \<open>
  The timestamp grammar of the model is the one that both parsers of the program accept,
  \<open>datetime.fromisoformat\<close> on the ingest path and the polars format
  \<open>%Y-%m-%dT%H:%M:%S%z\<close> on the query path: \<open>YYYY-MM-DDTHH:MM:SS\<close> followed by
  \<open>+HH:MM\<close> or \<open>-HH:MM\<close>, with the field ranges of \<open>datetime\<close> (year 1 to 9999, an
  offset below 24 hours). Any other string is a \<open>ValueError\<close> of the library.
\<close>

definition fromisoformat :: "string \<Rightarrow> datetime option" where
  "fromisoformat s =
     (if length s = 25 \<and> s ! 4 = CHR ''-'' \<and> s ! 7 = CHR ''-'' \<and> s ! 10 = CHR ''T''
         \<and> s ! 13 = CHR '':'' \<and> s ! 16 = CHR '':''
         \<and> (s ! 19 = CHR ''+'' \<or> s ! 19 = CHR ''-'') \<and> s ! 22 = CHR '':''
      then
        (case (number (sub s 0 4), number (sub s 5 2), number (sub s 8 2),
               number (sub s 11 2), number (sub s 14 2), number (sub s 17 2),
               number (sub s 20 2), number (sub s 23 2)) of
           (Some y, Some mo, Some d, Some h, Some mi, Some sec, Some oh, Some om) \<Rightarrow>
             (if 1 \<le> y \<and> 1 \<le> mo \<and> mo \<le> 12 \<and> 1 \<le> d \<and> d \<le> days_in_month y mo
                 \<and> h < 24 \<and> mi < 60 \<and> sec < 60 \<and> oh < 24 \<and> om < 60
              then Some \<lparr>year = y, month = mo, day = d, hour = h, minute = mi, second = sec,
                         utcoffset = (if s ! 19 = CHR ''-'' then - int (oh * 60 + om)
                                      else int (oh * 60 + om))\<rparr>
              else None)
         | _ \<Rightarrow> None)
      else None)"

definition digit_char :: "nat \<Rightarrow> char" where
  "digit_char n = char_of (48 + n mod 10)"

definition pad2 :: "nat \<Rightarrow> string" where
  "pad2 n = [digit_char (n div 10), digit_char n]"

text \<open>\<open>%Y\<close>: four digits; a year beyond 9999 is printed with a sign and all its digits.\<close>

fun decimal :: "nat \<Rightarrow> string" where
  "decimal n = (if n < 10 then [digit_char n] else decimal (n div 10) @ [digit_char n])"

declare decimal.simps [simp del]

definition fmt_year :: "nat \<Rightarrow> string" where
  "fmt_year y =
     (if y < 10000
      then [digit_char (y div 1000), digit_char (y div 100), digit_char (y div 10), digit_char y]
      else CHR ''+'' # decimal y)"

text \<open>
  \<open>dt.strftime("%Y-%m-%d")\<close> and \<open>date.isoformat()\<close>, on the civil date of the
  timestamp as written; the year has four digits.
\<close>

definition strftime_date :: "nat \<times> nat \<times> nat \<Rightarrow> string" where
  "strftime_date ymd = (case ymd of (y, m, d) \<Rightarrow> fmt_year y @ ''-'' @ pad2 m @ ''-'' @ pad2 d)"

definition date_of :: "datetime \<Rightarrow> nat \<times> nat \<times> nat" where
  "date_of dt = (year dt, month dt, day dt)"

section \<open>The storage object\<close>

text \<open>A buffered record, and a row of a partition file: the dict built by the ingest paths.\<close>

record reading =
  device_id :: string
  user_id :: string
  timestamp :: string
  heart_rate :: int
  date :: string

text \<open>
  \<open>write_buffer\<close> is the deque, leftmost element first; \<open>write_lock\<close> tells whether the
  \<open>asyncio.Lock\<close> is held; \<open>files\<close> maps the path of each existing partition file to its
  rows.
\<close>

record storage =
  write_buffer :: "reading list"
  write_lock :: bool
  files :: "string \<rightharpoonup> reading list"

definition init :: storage where
  "init = \<lparr>write_buffer = [], write_lock = False, files = Map.empty\<rparr>"

definition maxlen :: nat where
  "maxlen = BATCH_SIZE * 2"

text \<open>
  \<open>deque(maxlen=...)\<close>: once the deque is full, an append on the right discards the
  leftmost element; \<open>extend\<close> appends the elements one by one.
\<close>

definition deque_append :: "reading list \<Rightarrow> reading \<Rightarrow> reading list" where
  "deque_append q x = (let q' = q @ [x] in if length q' > maxlen then tl q' else q')"

definition deque_extend :: "reading list \<Rightarrow> reading list \<Rightarrow> reading list" where
  "deque_extend q xs = foldl deque_append q xs"

definition file_path :: "string \<Rightarrow> string" where
  "file_path date_str = DATA_DIR @ ''/'' @ PARQUET_FILE_PREFIX @ ''_'' @ date_str @ ''.parquet''"

subsection \<open>Flushing\<close>

text \<open>
  The \<open>while self.write_buffer\<close> loop: \<open>records_by_date\<close> is a dict, which keeps its keys
  in the order of their first insertion.
\<close>

fun group_records :: "reading list \<Rightarrow> (string \<times> reading list) list \<Rightarrow> (string \<times> reading list) list" where
  "group_records [] records_by_date = records_by_date"
| "group_records (r # buffer) records_by_date =
     group_records buffer
       (if date r \<in> fst ` set records_by_date
        then map (\<lambda>(d, rs). if d = date r then (d, rs @ [r]) else (d, rs)) records_by_date
        else records_by_date @ [(date r, [r])])"

text \<open>One iteration of the \<open>for date_str, records in records_by_date.items()\<close> loop.\<close>

definition write_group :: "(string \<rightharpoonup> reading list) \<Rightarrow> string \<times> reading list \<Rightarrow> (string \<rightharpoonup> reading list)" where
  "write_group fs g =
     (case g of (date_str, records) \<Rightarrow>
        (case fs (file_path date_str) of
           Some existing_df \<Rightarrow> fs(file_path date_str \<mapsto> existing_df @ records)
         | None \<Rightarrow> fs(file_path date_str \<mapsto> records)))"

definition flush_buffer_unlocked :: "storage \<Rightarrow> storage" where
  "flush_buffer_unlocked st =
     (if write_buffer st = [] then st
      else st\<lparr>write_buffer := [],
              files := foldl write_group (files st) (group_records (write_buffer st) [])\<rparr>)"

text \<open>
  \<open>_flush_buffer\<close> takes the lock itself. An \<open>asyncio.Lock\<close> is not reentrant: when the
  lock is held, the coroutine waits until it is released.
\<close>

definition flush_buffer :: "storage \<Rightarrow> unit outcome \<times> storage" where
  "flush_buffer st =
     (if write_lock st then (Blocked, st)
      else (Return (), (flush_buffer_unlocked (st\<lparr>write_lock := True\<rparr>))\<lparr>write_lock := False\<rparr>))"

definition flush :: "storage \<Rightarrow> unit outcome \<times> storage" where
  "flush st = flush_buffer st"

subsection \<open>Ingestion\<close>

definition ingest_metric :: "storage \<Rightarrow> string \<Rightarrow> string \<Rightarrow> string \<Rightarrow> int \<Rightarrow> unit outcome \<times> storage" where
  "ingest_metric st dev usr ts hr =
     (case fromisoformat (py_replace_Z ts) of
        None \<Rightarrow> (Raise ValueError, st)
      | Some dt \<Rightarrow>
          (let record = \<lparr>device_id = dev, user_id = usr, timestamp = ts, heart_rate = hr,
                         date = strftime_date (date_of dt)\<rparr>
           in if write_lock st then (Blocked, st)
              else
                (let st1 = st\<lparr>write_lock := True,
                              write_buffer := deque_append (write_buffer st) record\<rparr>
                 in if length (write_buffer st1) \<ge> BATCH_SIZE
                    then (case flush_buffer st1 of
                            (Return u, st2) \<Rightarrow> (Return (), st2\<lparr>write_lock := False\<rparr>)
                          | (Raise e, st2) \<Rightarrow> (Raise e, st2\<lparr>write_lock := False\<rparr>)
                          | (Blocked, st2) \<Rightarrow> (Blocked, st2))
                    else (Return (), st1\<lparr>write_lock := False\<rparr>))))"

text \<open>
  An entry of a batch is a dict; a key that is absent is \<open>None\<close> here, and the values have
  the types of the parameters of \<open>ingest_metric\<close>.
\<close>

record entry =
  entry_device_id :: "string option"
  entry_user_id :: "string option"
  entry_timestamp :: "string option"
  entry_heart_rate :: "int option"

text \<open>The body of the \<open>try\<close>, in the order in which the source evaluates it.\<close>

definition make_record :: "entry \<Rightarrow> error + reading" where
  "make_record e =
     (case entry_timestamp e of
        None \<Rightarrow> Inl KeyError
      | Some ts \<Rightarrow>
          (case fromisoformat (py_replace_Z ts) of
             None \<Rightarrow> Inl ValueError
           | Some dt \<Rightarrow>
               (case entry_device_id e of
                  None \<Rightarrow> Inl KeyError
                | Some dev \<Rightarrow>
                    (case entry_user_id e of
                       None \<Rightarrow> Inl KeyError
                     | Some usr \<Rightarrow>
                         (case entry_heart_rate e of
                            None \<Rightarrow> Inl KeyError
                          | Some hr \<Rightarrow>
                              Inr \<lparr>device_id = dev, user_id = usr, timestamp = ts,
                                   heart_rate = hr, date = strftime_date (date_of dt)\<rparr>)))))"

text \<open>The \<open>for reading in readings\<close> loop; \<open>except (ValueError, KeyError)\<close> counts a rejection.\<close>

fun batch_loop :: "entry list \<Rightarrow> nat \<times> nat \<times> reading list \<Rightarrow> error + nat \<times> nat \<times> reading list" where
  "batch_loop [] acc = Inr acc"
| "batch_loop (e # es) (accepted, rejected, records) =
     (case make_record e of
        Inr record \<Rightarrow> batch_loop es (accepted + 1, rejected, records @ [record])
      | Inl err \<Rightarrow>
          (if err = ValueError \<or> err = KeyError
           then batch_loop es (accepted, rejected + 1, records)
           else Inl err))"

definition ingest_batch :: "storage \<Rightarrow> entry list \<Rightarrow> (nat \<times> nat) outcome \<times> storage" where
  "ingest_batch st readings =
     (case batch_loop readings (0, 0, []) of
        Inl err \<Rightarrow> (Raise err, st)
      | Inr (accepted, rejected, records) \<Rightarrow>
          (if records \<noteq> []
           then (if write_lock st then (Blocked, st)
                 else
                   (let st1 = st\<lparr>write_lock := True,
                                 write_buffer := deque_extend (write_buffer st) records\<rparr>;
                        st2 = (if length (write_buffer st1) \<ge> BATCH_SIZE
                               then flush_buffer_unlocked st1 else st1)
                    in (Return (accepted, rejected), st2\<lparr>write_lock := False\<rparr>)))
           else (Return (accepted, rejected), st)))"

section \<open>Querying\<close>

subsection \<open>Dates and minute buckets\<close>

text \<open>The day after a civil date, and the day before it.\<close>

definition next_day :: "nat \<times> nat \<times> nat \<Rightarrow> nat \<times> nat \<times> nat" where
  "next_day ymd =
     (case ymd of (y, m, d) \<Rightarrow>
        if d < days_in_month y m then (y, m, d + 1)
        else if m < 12 then (y, m + 1, 1)
        else (y + 1, 1, 1))"

definition prev_day :: "nat \<times> nat \<times> nat \<Rightarrow> nat \<times> nat \<times> nat" where
  "prev_day ymd =
     (case ymd of (y, m, d) \<Rightarrow>
        if 1 < d then (y, m, d - 1)
        else if 1 < m then (y, m - 1, days_in_month y (m - 1))
        else (y - 1, 12, 31))"

text \<open>
  \<open>current_date + timedelta(days=1)\<close>: a \<open>date\<close> of Python ends at 9999-12-31, and the
  addition raises \<open>OverflowError\<close> beyond it.
\<close>

definition add_day :: "nat \<times> nat \<times> nat \<Rightarrow> (nat \<times> nat \<times> nat) option" where
  "add_day ymd = (let n = next_day ymd in if fst n > 9999 then None else Some n)"

text \<open>
  \<open>_get_files_in_range\<close>: the \<open>while current_date <= end_date\<close> loop. Dates are compared
  as Python compares them, by year, then month, then day.
\<close>

function files_loop ::
  "(string \<rightharpoonup> reading list) \<Rightarrow> nat \<times> nat \<times> nat \<Rightarrow> nat \<times> nat \<times> nat \<Rightarrow> string list
     \<Rightarrow> error + string list" where
  "files_loop fs current_date end_date found =
     (if current_date \<le> end_date
      then (let found' = (if file_path (strftime_date current_date) \<in> dom fs
                          then found @ [file_path (strftime_date current_date)] else found)
            in case add_day current_date of
                 None \<Rightarrow> Inl OverflowError
               | Some n \<Rightarrow> files_loop fs n end_date found')
      else Inr found)"
  by pat_completeness auto
termination
proof (relation "measures [\<lambda>(fs, c, e, f). Suc (fst e) - fst c,
                           \<lambda>(fs, c, e, f). 12 - fst (snd c),
                           \<lambda>(fs, c, e, f). 31 - snd (snd c)]", goal_cases)
  case 1
  then show ?case by simp
next
  case (2 fs current_date end_date found x n)
  then show ?case
    by (cases current_date; cases end_date)
       (auto simp: add_day_def next_day_def Let_def days_in_month_def split: if_splits)
qed

declare files_loop.simps [simp del]

definition get_files_in_range :: "storage \<Rightarrow> datetime \<Rightarrow> datetime \<Rightarrow> error + string list" where
  "get_files_in_range st start_dt end_dt = files_loop (files st) (date_of start_dt) (date_of end_dt) []"

text \<open>
  A minute bucket is an instant truncated to the minute, held as its UTC civil fields
  (year, month, day, hour, minute); the order of instants is the lexicographic order
  of these fields. An offset is below 24 hours, so the UTC date is the date as
  written, the day before or the day after.
\<close>

type_synonym bucket = "nat \<times> nat \<times> nat \<times> nat \<times> nat"

definition utc_minute :: "datetime \<Rightarrow> bucket" where
  "utc_minute dt =
     (let m = int (hour dt * 60 + minute dt) - utcoffset dt
      in if m < 0
         then (case prev_day (date_of dt) of
                 (y, mo, d) \<Rightarrow> (y, mo, d, nat (m + 1440) div 60, nat (m + 1440) mod 60))
         else if 1440 \<le> m
         then (case next_day (date_of dt) of
                 (y, mo, d) \<Rightarrow> (y, mo, d, nat (m - 1440) div 60, nat (m - 1440) mod 60))
         else (year dt, month dt, day dt, nat m div 60, nat m mod 60))"

text \<open>
  \<open>.str.replace("Z", "+00:00").str.strptime(pl.Datetime, format=...).dt.truncate("1m")\<close>
  on one value; \<open>None\<close> when the string does not parse.
\<close>

definition parse_minute :: "string \<Rightarrow> bucket option" where
  "parse_minute ts = map_option utc_minute (fromisoformat (pl_replace_Z ts))"

text \<open>\<open>.dt.strftime("%Y-%m-%dT%H:%M:%SZ")\<close> of a truncated instant.\<close>

definition strftime_minute :: "bucket \<Rightarrow> string" where
  "strftime_minute b =
     (case b of (y, mo, d, h, mi) \<Rightarrow>
        fmt_year y @ ''-'' @ pad2 mo @ ''-'' @ pad2 d @ ''T'' @ pad2 h @ '':'' @ pad2 mi @ '':00Z'')"

subsection \<open>The data frame\<close>

text \<open>A row of the frame once the columns \<open>minute_bucket\<close> and \<open>priority\<close> are attached.\<close>

record frame_row =
  row :: reading
  minute_bucket :: bucket
  priority :: nat

text \<open>A dict of the returned list.\<close>

record data_point =
  out_heart_rate :: real
  out_device_id :: string
  out_timestamp :: string

text \<open>
  The left join with \<open>priority_map\<close> followed by \<open>fill_null(999)\<close>: the rank of the
  table, 999 for a device that is not in it.
\<close>

definition priority_of :: "string \<Rightarrow> nat" where
  "priority_of dev = (case map_of DEVICE_PRIORITIES dev of Some p \<Rightarrow> p | None \<Rightarrow> 999)"

text \<open>
  \<open>with_columns(... .alias("minute_bucket"))\<close>: \<open>strptime\<close> is strict, one value that
  does not parse fails the whole expression.
\<close>

fun with_minute_bucket :: "reading list \<Rightarrow> (reading \<times> bucket) list option" where
  "with_minute_bucket [] = Some []"
| "with_minute_bucket (r # rs) =
     (case parse_minute (timestamp r) of
        None \<Rightarrow> None
      | Some b \<Rightarrow> map_option ((#) (r, b)) (with_minute_bucket rs))"

definition with_priority :: "(reading \<times> bucket) list \<Rightarrow> frame_row list" where
  "with_priority rbs =
     map (\<lambda>(r, b). \<lparr>row = r, minute_bucket = b, priority = priority_of (device_id r)\<rparr>) rbs"

text \<open>
  \<open>group_by(..., maintain_order=True)\<close>: the groups in the order in which their keys
  first appear, the rows of a group in the order of the frame.
\<close>

definition first_seen :: "'k list \<Rightarrow> 'k list" where
  "first_seen ks = rev (remdups (rev ks))"

definition group_by :: "('a \<Rightarrow> 'k) \<Rightarrow> 'a list \<Rightarrow> ('k \<times> 'a list) list" where
  "group_by key xs = map (\<lambda>k. (k, filter (\<lambda>x. key x = k) xs)) (first_seen (map key xs))"

text \<open>
  \<open>mean()\<close> and \<open>round(2)\<close>, over the reals. A group of \<open>group_by\<close> is never empty.
\<close>

definition mean :: "int list \<Rightarrow> real" where
  "mean xs = real_of_int (sum_list xs) / real (length xs)"

definition round2 :: "real \<Rightarrow> real" where
  "round2 x = real_of_int (round (x * 100)) / 100"

text \<open>\<open>GroupBy.first()\<close>: the first row of each group.\<close>

definition group_first :: "('a \<Rightarrow> 'k) \<Rightarrow> 'a list \<Rightarrow> 'a list" where
  "group_first key xs = map (\<lambda>(k, g). hd g) (group_by key xs)"

text \<open>
  The chain that builds \<open>aggregated_df\<close>. \<open>srt\<close> is \<open>DataFrame.sort\<close> on
  \<open>["minute_bucket", "priority"]\<close>: the source calls it without \<open>maintain_order\<close>, which
  leaves the order of rows with equal keys to the library, so it is a parameter here.
  The last sort is on the formatted timestamps; in a query they are pairwise distinct, so
  that the order of equal keys plays no part there.
\<close>

definition aggregate :: "(frame_row list \<Rightarrow> frame_row list) \<Rightarrow> frame_row list \<Rightarrow> data_point list" where
  "aggregate srt df =
     (let sorted_df = srt df;
          first_df = group_first (\<lambda>x. (minute_bucket x, user_id (row x))) sorted_df;
          agg_df = map (\<lambda>(b, g).
                          \<lparr>out_heart_rate = round2 (mean (map (\<lambda>x. heart_rate (row x)) g)),
                           out_device_id = device_id (row (hd g)),
                           out_timestamp = strftime_minute b\<rparr>)
                     (group_by minute_bucket first_df)
      in sort_key out_timestamp agg_df)"

text \<open>
  The three filters of the lazy frame. \<open>if device_id:\<close> is false for \<open>None\<close> and for
  the empty string. The time range compares the stored strings with the bounds as
  polars compares strings, byte by byte; \<open>stop\<close> is the parameter \<open>end\<close>.
\<close>

definition candidates :: "reading list \<Rightarrow> string \<Rightarrow> string \<Rightarrow> string \<Rightarrow> string option \<Rightarrow> reading list" where
  "candidates combined usr start stop dev =
     (let by_user = filter (\<lambda>r. user_id r = usr) combined;
          by_device = (case dev of
                         Some d \<Rightarrow> if d \<noteq> [] then filter (\<lambda>r. device_id r = d) by_user
                                   else by_user
                       | None \<Rightarrow> by_user)
      in filter (\<lambda>r. start \<le> timestamp r \<and> timestamp r \<le> stop) by_device)"

text \<open>\<open>pl.concat\<close> of the scans of the listed files.\<close>

definition scan_files :: "storage \<Rightarrow> string list \<Rightarrow> reading list" where
  "scan_files st date_files =
     concat (map (\<lambda>p. case files st p of Some rows \<Rightarrow> rows | None \<Rightarrow> []) date_files)"

text \<open>
  \<open>query_metrics\<close> up to \<open>filtered_lazy.collect()\<close>: the rows that the query works on.
  Where the source returns the empty list before it collects, there are no rows.
\<close>

definition filtered_df :: "storage \<Rightarrow> string \<Rightarrow> string \<Rightarrow> string \<Rightarrow> string option \<Rightarrow> error + reading list" where
  "filtered_df st usr start stop dev =
     (case fromisoformat (py_replace_Z start) of
        None \<Rightarrow> Inl ValueError
      | Some start_dt \<Rightarrow>
          (case fromisoformat (py_replace_Z stop) of
             None \<Rightarrow> Inl ValueError
           | Some end_dt \<Rightarrow>
               (case get_files_in_range st start_dt end_dt of
                  Inl e \<Rightarrow> Inl e
                | Inr date_files \<Rightarrow>
                    Inr (if date_files = [] then []
                         else candidates (scan_files st date_files) usr start stop dev))))"

text \<open>
  \<open>query_metrics\<close>, from the collected rows on. The method is not a coroutine, and it
  reads \<open>self.data_dir\<close> only.
\<close>

definition query_metrics ::
  "(frame_row list \<Rightarrow> frame_row list) \<Rightarrow> storage \<Rightarrow> string \<Rightarrow> string \<Rightarrow> string \<Rightarrow> string option
     \<Rightarrow> error + data_point list" where
  "query_metrics srt st usr start stop dev =
     (case filtered_df st usr start stop dev of
        Inl e \<Rightarrow> Inl e
      | Inr filtered \<Rightarrow>
          (if filtered = [] then Inr []
           else (case with_minute_bucket filtered of
                   None \<Rightarrow> Inl ComputeError
                 | Some rbs \<Rightarrow> Inr (aggregate srt (with_priority rbs)))))"

text \<open>
  What the library promises of the sort: the rows of the frame, rearranged so that the
  keys ascend. A stable sort is one such function.
\<close>

definition sort_cols :: "frame_row \<Rightarrow> bucket \<times> nat" where
  "sort_cols x = (minute_bucket x, priority x)"


definition stable_sort :: "frame_row list \<Rightarrow> frame_row list" where
  "stable_sort = sort_key sort_cols"

section \<open>Writing a partition file\<close>

text \<open>
  \<open>write_parquet(file_path)\<close> writes in place: the file at the path is created or
  truncated when the write starts, and it holds the frame once the write has finished.
  A write that is cut short leaves the truncated file behind.
\<close>

datatype disk_file = Parquet "reading list" | Truncated

definition on_disk :: "(string \<rightharpoonup> reading list) \<Rightarrow> (string \<rightharpoonup> disk_file)" where
  "on_disk fs = map_option Parquet \<circ> fs"

text \<open>
  The partition files when \<open>_flush_buffer_unlocked\<close> is cut short during the write of
  the date at position \<open>k\<close> of \<open>records_by_date\<close>: the dates before it are written, its own
  file is truncated. Past the last date the flush has run to its end.
\<close>

definition flush_interrupted :: "storage \<Rightarrow> nat \<Rightarrow> (string \<rightharpoonup> disk_file)" where
  "flush_interrupted st k =
     (let groups = group_records (write_buffer st) []
      in if k < length groups
         then (on_disk (foldl write_group (files st) (take k groups)))
                (file_path (fst (groups ! k)) \<mapsto> Truncated)
         else on_disk (foldl write_group (files st) groups))"

section \<open>Vocabulary of the statements\<close>





section \<open>Inputs of the examples\<close>

text \<open>The dict that the batch endpoint builds from a validated request (core/api.py).\<close>

definition reading_entry :: "string \<Rightarrow> string \<Rightarrow> string \<Rightarrow> int \<Rightarrow> entry" where
  "reading_entry dev usr ts hr =
     \<lparr>entry_device_id = Some dev, entry_user_id = Some usr,
      entry_timestamp = Some ts, entry_heart_rate = Some hr\<rparr>"

text \<open>A stored row.\<close>

definition stored :: "string \<Rightarrow> string \<Rightarrow> string \<Rightarrow> int \<Rightarrow> string \<Rightarrow> reading" where
  "stored dev usr ts hr d =
     \<lparr>device_id = dev, user_id = usr, timestamp = ts, heart_rate = hr, date = d\<rparr>"

text \<open>
  A run of \<open>ingest_metric\<close> calls, one after the other, and a forced flush: the states
  they leave.
\<close>

definition ingest_all :: "storage \<Rightarrow> (string \<times> string \<times> string \<times> int) list \<Rightarrow> storage" where
  "ingest_all st ms = foldl (\<lambda>s (dev, usr, ts, hr). snd (ingest_metric s dev usr ts hr)) st ms"

definition flushed :: "storage \<Rightarrow> storage" where
  "flushed st = snd (flush st)"

text \<open>A batch of 201 well-formed readings: one of user \<open>u0\<close>, then 200 of user \<open>u1\<close>.\<close>

definition overflow_batch :: "entry list" where
  "overflow_batch =
     reading_entry ''device_a'' ''u0'' ''2024-01-15T10:00:00Z'' 60
     # replicate 200 (reading_entry ''device_a'' ''u1'' ''2024-01-15T10:00:00Z'' 61)"

text \<open>
  A batch with two malformed entries in front of the 201 readings: a timestamp that does
  not parse, and a dict without the key \<open>timestamp\<close>.
\<close>

definition mixed_batch :: "entry list" where
  "mixed_batch =
     reading_entry ''device_a'' ''u0'' ''invalid-timestamp'' 70
     # \<lparr>entry_device_id = Some ''device_a'', entry_user_id = Some ''u0'',
        entry_timestamp = None, entry_heart_rate = Some 70\<rparr>
     # overflow_batch"

text \<open>The records that the loop of \<open>ingest_batch\<close> builds from a batch.\<close>

definition accepted_records :: "entry list \<Rightarrow> reading list" where
  "accepted_records es = concat (map (\<lambda>e. case make_record e of Inr r \<Rightarrow> [r] | Inl err \<Rightarrow> []) es)"

section \<open>Grouping\<close>













section \<open>Parsing and formatting timestamps\<close>






























section \<open>The structure of a query result\<close>















section \<open>The write buffer\<close>

lemma make_record_error: "make_record e = Inl err \<Longrightarrow> err = ValueError \<or> err = KeyError"
  by (auto simp: make_record_def split: option.splits)

lemma batch_loop_eq:
  "batch_loop es (accepted, rejected, records) =
     Inr (accepted + length (accepted_records es),
          rejected + (length es - length (accepted_records es)),
          records @ accepted_records es)"
proof (induction es arbitrary: accepted rejected records)
  case Nil
  then show ?case by (simp add: accepted_records_def)
next
  case (Cons e es)
  have le: "length (accepted_records es) \<le> length es"
    unfolding accepted_records_def
    by (induction es) (auto split: sum.splits)
  show ?case
  proof (cases "make_record e")
    case (Inl err)
    then have "err = ValueError \<or> err = KeyError" by (rule make_record_error)
    then show ?thesis using Inl Cons.IH le by (auto simp: accepted_records_def)
  next
    case (Inr r)
    then show ?thesis using Cons.IH le by (simp add: accepted_records_def)
  qed
qed

lemma accepted_records_le: "length (accepted_records es) \<le> length es"
  unfolding accepted_records_def by (induction es) (auto split: sum.splits)

lemma deque_append_length: "length q \<le> maxlen \<Longrightarrow> length (deque_append q x) \<le> maxlen"
  by (simp add: deque_append_def Let_def)

lemma deque_extend_drop:
  "length q \<le> maxlen \<Longrightarrow> deque_extend q xs = drop (length q + length xs - maxlen) (q @ xs)"
proof (induction xs arbitrary: q)
  case Nil
  then show ?case by (simp add: deque_extend_def)
next
  case (Cons x xs)
  have step: "deque_extend q (x # xs) = deque_extend (deque_append q x) xs"
    by (simp add: deque_extend_def)
  have len: "length (deque_append q x) \<le> maxlen"
    using Cons.prems by (rule deque_append_length)
  show ?case
  proof (cases "length q < maxlen")
    case True
    then have "deque_append q x = q @ [x]" by (simp add: deque_append_def Let_def)
    then show ?thesis using Cons.IH[OF len] step by simp
  next
    case False
    then have full: "length q = maxlen" using Cons.prems by simp
    then have a: "deque_append q x = tl (q @ [x])" by (simp add: deque_append_def Let_def)
    have "q \<noteq> []" using full by (auto simp: maxlen_def BATCH_SIZE_def)
    then have b: "tl (q @ [x]) @ xs = drop 1 (q @ x # xs)"
      by (cases q) simp_all
    have "length (tl (q @ [x])) = maxlen" using full by simp
    then have c: "deque_extend (tl (q @ [x])) xs = drop (length xs) (tl (q @ [x]) @ xs)"
      using Cons.IH[of "tl (q @ [x])"] by simp
    have n: "length q + length (x # xs) - maxlen = length xs + 1" using full by simp
    have "deque_extend q (x # xs) = drop (length xs) (drop 1 (q @ x # xs))"
      by (simp only: step a c b)
    also have "\<dots> = drop (length xs + 1) (q @ x # xs)"
      by (simp only: drop_drop)
    finally show ?thesis by (simp only: n)
  qed
qed

lemma group_records_same_date:
  "\<forall>r\<in>set rs. date r = d \<Longrightarrow> group_records rs [(d, xs)] = [(d, xs @ rs)]"
  by (induction rs arbitrary: xs) simp_all

lemma group_records_one_date:
  assumes "rs \<noteq> []" and "\<forall>r\<in>set rs. date r = d"
  shows "group_records rs [] = [(d, rs)]"
proof -
  obtain r rest where rs: "rs = r # rest" using assms(1) by (cases rs) auto
  then have "group_records rs [] = group_records rest [(d, [r])]"
    using assms(2) by simp
  also have "\<dots> = [(d, [r] @ rest)]"
    using assms(2) rs by (intro group_records_same_date) simp
  finally show ?thesis using rs by simp
qed

lemma ingest_batch_total:
  assumes "fst (ingest_batch st readings) = Return (accepted, rejected)"
  shows "accepted + rejected = length readings"
  using assms accepted_records_le[of readings]
  by (auto simp: ingest_batch_def batch_loop_eq Let_def split: if_splits)

lemma ingest_batch_no_raise: "fst (ingest_batch st readings) \<noteq> Raise e"
  by (simp add: ingest_batch_def batch_loop_eq Let_def)

lemma accepted_records_Cons:
  "accepted_records (e # es) = (case make_record e of Inr r \<Rightarrow> [r] | Inl err \<Rightarrow> []) @ accepted_records es"
  by (simp add: accepted_records_def)

lemma accepted_records_replicate:
  "make_record e = Inr r \<Longrightarrow> accepted_records (replicate n e) = replicate n r"
  by (induction n) (simp_all add: accepted_records_def)

lemma make_record_u0:
  "make_record (reading_entry ''device_a'' ''u0'' ''2024-01-15T10:00:00Z'' 60)
   = Inr (stored ''device_a'' ''u0'' ''2024-01-15T10:00:00Z'' 60 ''2024-01-15'')"
  by code_simp

lemma make_record_u1:
  "make_record (reading_entry ''device_a'' ''u1'' ''2024-01-15T10:00:00Z'' 61)
   = Inr (stored ''device_a'' ''u1'' ''2024-01-15T10:00:00Z'' 61 ''2024-01-15'')"
  by code_simp

lemma flush_one_date:
  assumes "rs \<noteq> []" and "\<forall>r\<in>set rs. date r = d" and "length rs \<le> maxlen"
  shows "flush_buffer_unlocked \<lparr>write_buffer = rs, write_lock = l, files = fs\<rparr>
         = \<lparr>write_buffer = [], write_lock = l,
            files = fs(file_path d \<mapsto> (case fs (file_path d) of Some old \<Rightarrow> old @ rs | None \<Rightarrow> rs))\<rparr>"
  using assms
  by (simp add: flush_buffer_unlocked_def group_records_one_date[OF assms(1,2)] write_group_def
      split: option.splits)

lemma overflow_batch_state:
  "ingest_batch init overflow_batch
   = (Return (201, 0),
      \<lparr>write_buffer = [], write_lock = False,
       files = [file_path ''2024-01-15'' \<mapsto>
                  replicate 200 (stored ''device_a'' ''u1'' ''2024-01-15T10:00:00Z'' 61 ''2024-01-15'')]\<rparr>)"
proof -
  let ?r0 = "stored ''device_a'' ''u0'' ''2024-01-15T10:00:00Z'' 60 ''2024-01-15''"
  let ?r1 = "stored ''device_a'' ''u1'' ''2024-01-15T10:00:00Z'' 61 ''2024-01-15''"
  have recs: "accepted_records overflow_batch = ?r0 # replicate 200 ?r1"
    unfolding overflow_batch_def accepted_records_Cons
    by (simp add: make_record_u0 accepted_records_replicate[OF make_record_u1])
  have loop: "batch_loop overflow_batch (0, 0, []) = Inr (201, 0, ?r0 # replicate 200 ?r1)"
    unfolding batch_loop_eq recs by (simp add: overflow_batch_def)
  have ext: "deque_extend [] (?r0 # replicate 200 ?r1) = replicate 200 ?r1"
    by (simp add: deque_extend_drop maxlen_def BATCH_SIZE_def)
  have fl: "flush_buffer_unlocked \<lparr>write_buffer = replicate 200 ?r1, write_lock = True, files = Map.empty\<rparr>
            = \<lparr>write_buffer = [], write_lock = True,
               files = [file_path ''2024-01-15'' \<mapsto> replicate 200 ?r1]\<rparr>"
    by (subst flush_one_date[where d = "''2024-01-15''"])
       (simp_all add: stored_def maxlen_def BATCH_SIZE_def)
  show ?thesis
    unfolding ingest_batch_def loop
    by (simp add: init_def ext fl BATCH_SIZE_def)
qed

lemma lost_query:
  "query_metrics stable_sort
     \<lparr>write_buffer = [], write_lock = False,
       files = [file_path ''2024-01-15'' \<mapsto>
                  replicate 200 (stored ''device_a'' ''u1'' ''2024-01-15T10:00:00Z'' 61 ''2024-01-15'')]\<rparr>
     ''u0'' ''2024-01-15T10:00:00Z'' ''2024-01-15T10:01:00Z'' None = Inr []"
  by code_simp


lemma ingest_batch_init_overflow:
  assumes recs: "accepted_records es = r0 # replicate 200 r1"
  shows "ingest_batch init es
         = (Return (201, length es - 201),
            \<lparr>write_buffer = [], write_lock = False,
             files = [file_path (date r1) \<mapsto> replicate 200 r1]\<rparr>)"
proof -
  have loop: "batch_loop es (0, 0, []) = Inr (201, length es - 201, r0 # replicate 200 r1)"
    unfolding batch_loop_eq recs by simp
  have ext: "deque_extend [] (r0 # replicate 200 r1) = replicate 200 r1"
    by (simp add: deque_extend_drop maxlen_def BATCH_SIZE_def)
  have fl: "flush_buffer_unlocked \<lparr>write_buffer = replicate 200 r1, write_lock = True, files = Map.empty\<rparr>
            = \<lparr>write_buffer = [], write_lock = True,
               files = [file_path (date r1) \<mapsto> replicate 200 r1]\<rparr>"
    by (subst flush_one_date[where d = "date r1"]) (simp_all add: maxlen_def BATCH_SIZE_def)
  show ?thesis
    unfolding ingest_batch_def loop
    by (simp add: init_def ext fl BATCH_SIZE_def)
qed

lemma accepted_records_overflow_batch:
  "accepted_records overflow_batch
   = stored ''device_a'' ''u0'' ''2024-01-15T10:00:00Z'' 60 ''2024-01-15''
     # replicate 200 (stored ''device_a'' ''u1'' ''2024-01-15T10:00:00Z'' 61 ''2024-01-15'')"
  unfolding overflow_batch_def accepted_records_Cons
  by (simp add: make_record_u0 accepted_records_replicate[OF make_record_u1])

lemma make_record_malformed:
  "make_record (reading_entry ''device_a'' ''u0'' ''invalid-timestamp'' 70) = Inl ValueError"
  "make_record \<lparr>entry_device_id = Some ''device_a'', entry_user_id = Some ''u0'',
       entry_timestamp = None, entry_heart_rate = Some 70\<rparr> = Inl KeyError"
  by code_simp+


lemma ingest_metric_blocks_at_threshold:
  assumes "fromisoformat (py_replace_Z ts) = Some dt" and "\<not> write_lock st"
    and "length (write_buffer st) = BATCH_SIZE - 1"
  shows "ingest_metric st dev usr ts hr
         = (Blocked, st\<lparr>write_lock := True,
                         write_buffer := write_buffer st
                           @ [\<lparr>device_id = dev, user_id = usr, timestamp = ts, heart_rate = hr,
                               date = strftime_date (date_of dt)\<rparr>]\<rparr>)"
  using assms
  by (simp add: ingest_metric_def Let_def deque_append_def maxlen_def BATCH_SIZE_def flush_buffer_def)

section \<open>The claims\<close>

subsection \<open>Aggregation of a minute bucket\<close>

text \<open>
  C1. The claim: the heart rate of a bucket is the mean, rounded to two decimals, of all
  the readings of the winning device in that minute, so that 70, 72 and 74 give 72.00.
  The code: \<open>GroupBy.first()\<close> leaves one row in each bucket before the mean is taken.
  Three readings of \<open>device_a\<close> in the minute 10:00, ingested in the order 70, 72, 74
  and flushed, give the bucket value 70, the heart rate of the first row; the mean
  of the three, rounded, is 72.
\<close>

theorem bucket_value_is_first_row:
  "query_metrics stable_sort
     (flushed (ingest_all init
        [(''device_a'', ''user_1'', ''2024-01-15T10:00:05Z'', 70),
         (''device_a'', ''user_1'', ''2024-01-15T10:00:25Z'', 72),
         (''device_a'', ''user_1'', ''2024-01-15T10:00:45Z'', 74)]))
     ''user_1'' ''2024-01-15T10:00:00Z'' ''2024-01-15T10:01:00Z'' None
   = Inr [\<lparr>out_heart_rate = 70, out_device_id = ''device_a'',
            out_timestamp = ''2024-01-15T10:00:00Z''\<rparr>]
   \<and> round2 (mean [70, 72, 74]) = 72"
proof -
  have "round2 (mean [70, 72, 74]) = 72"
    by (simp add: round2_def mean_def)
  moreover have "query_metrics stable_sort
     (flushed (ingest_all init
        [(''device_a'', ''user_1'', ''2024-01-15T10:00:05Z'', 70),
         (''device_a'', ''user_1'', ''2024-01-15T10:00:25Z'', 72),
         (''device_a'', ''user_1'', ''2024-01-15T10:00:45Z'', 74)]))
     ''user_1'' ''2024-01-15T10:00:00Z'' ''2024-01-15T10:01:00Z'' None
   = Inr [\<lparr>out_heart_rate = 70, out_device_id = ''device_a'',
            out_timestamp = ''2024-01-15T10:00:00Z''\<rparr>]"
    by code_simp
  ultimately show ?thesis by blast
qed

subsection \<open>Device priority\<close>



subsection \<open>Loss of buffered readings\<close>

text \<open>
  C3. The claim: every reading that enters the write buffer is flushed to its partition
  exactly once, also when a batch is larger than the buffer. The code: the deque holds
  at most 200 records and \<open>extend\<close> discards from the left. A batch of 201 well-formed
  readings into the empty storage returns \<open>(201, 0)\<close>, leaves the buffer empty and
  the partition with the 200 last readings: the record of the first reading of the batch
  is in no file and not in the buffer.
\<close>

theorem overflow_batch_drops_reading:
  "ingest_batch init overflow_batch
   = (Return (201, 0),
      \<lparr>write_buffer = [], write_lock = False,
       files = [file_path ''2024-01-15'' \<mapsto>
                  replicate 200 (stored ''device_a'' ''u1'' ''2024-01-15T10:00:00Z'' 61 ''2024-01-15'')]\<rparr>)
   \<and> make_record (hd overflow_batch) = Inr (stored ''device_a'' ''u0'' ''2024-01-15T10:00:00Z'' 60 ''2024-01-15'')
   \<and> stored ''device_a'' ''u0'' ''2024-01-15T10:00:00Z'' 60 ''2024-01-15''
       \<notin> set (replicate 200 (stored ''device_a'' ''u1'' ''2024-01-15T10:00:00Z'' 61 ''2024-01-15''))"
proof -
  have "length overflow_batch = 201" by (simp add: overflow_batch_def)
  then have 1: "ingest_batch init overflow_batch
   = (Return (201, 0),
      \<lparr>write_buffer = [], write_lock = False,
       files = [file_path ''2024-01-15'' \<mapsto>
                  replicate 200 (stored ''device_a'' ''u1'' ''2024-01-15T10:00:00Z'' 61 ''2024-01-15'')]\<rparr>)"
    using ingest_batch_init_overflow[OF accepted_records_overflow_batch]
    by (simp add: stored_def)
  have 2: "make_record (hd overflow_batch) = Inr (stored ''device_a'' ''u0'' ''2024-01-15T10:00:00Z'' 60 ''2024-01-15'')"
    by (simp add: overflow_batch_def make_record_u0)
  have 3: "stored ''device_a'' ''u0'' ''2024-01-15T10:00:00Z'' 60 ''2024-01-15''
       \<notin> set (replicate 200 (stored ''device_a'' ''u1'' ''2024-01-15T10:00:00Z'' 61 ''2024-01-15''))"
    by (simp add: stored_def)
  show ?thesis using 1 2 3 by blast
qed

subsection \<open>Writing in place\<close>

text \<open>
  C4. The claim: a flush writes the combined content under a new file identity and
  publishes it by a rename, so that an interrupted flush leaves the former partition
  file as it was. The code: \<open>write_parquet\<close> is called on the path of the partition
  file itself. With a partition that holds one row and one buffered record of the same
  date, a flush cut short during its write leaves a truncated file where the former
  one was.
\<close>

theorem flush_overwrites_in_place:
  "on_disk (files (ingest_all (flushed (ingest_all init [(''device_a'', ''user_1'', ''2024-01-15T10:00:00Z'', 70)]))
                     [(''device_a'', ''user_1'', ''2024-01-15T10:01:00Z'', 71)]))
     (file_path ''2024-01-15'')
     = Some (Parquet [stored ''device_a'' ''user_1'' ''2024-01-15T10:00:00Z'' 70 ''2024-01-15''])
   \<and> flush_interrupted
        (ingest_all (flushed (ingest_all init [(''device_a'', ''user_1'', ''2024-01-15T10:00:00Z'', 70)]))
                     [(''device_a'', ''user_1'', ''2024-01-15T10:01:00Z'', 71)]) 0
        (file_path ''2024-01-15'')
       = Some Truncated"
  by code_simp

subsection \<open>Counts of a batch and query after a flush\<close>

text \<open>
  C5. The claim: the accepted and rejected counts of a batch add up to its size, and
  after a forced flush every accepted reading is in its partition and is returned by a
  matching query. The code: the counts add up (lemma \<open>ingest_batch_total\<close>), and for the
  batch of 201 readings all are counted as accepted, but after the flush a query for the
  user of the first reading, over its minute, returns nothing.
\<close>

theorem accepted_reading_not_queryable:
  "fst (ingest_batch init overflow_batch) = Return (201, 0)
   \<and> length overflow_batch = 201
   \<and> query_metrics stable_sort (flushed (snd (ingest_batch init overflow_batch)))
        ''u0'' ''2024-01-15T10:00:00Z'' ''2024-01-15T10:01:00Z'' None = Inr []"
proof -
  have s: "ingest_batch init overflow_batch
   = (Return (201, 0),
      \<lparr>write_buffer = [], write_lock = False,
       files = [file_path ''2024-01-15'' \<mapsto>
                  replicate 200 (stored ''device_a'' ''u1'' ''2024-01-15T10:00:00Z'' 61 ''2024-01-15'')]\<rparr>)"
    by (rule overflow_batch_state)
  have f: "flushed \<lparr>write_buffer = [], write_lock = False, files = fs\<rparr>
           = \<lparr>write_buffer = [], write_lock = False, files = fs\<rparr>" for fs
    by (simp add: flushed_def flush_def flush_buffer_def flush_buffer_unlocked_def)
  show ?thesis
    unfolding s by (simp add: f lost_query overflow_batch_def)
qed

subsection \<open>Malformed entries of a batch\<close>

text \<open>
  C6. The claim: a malformed entry of a batch is counted as rejected, nothing is raised,
  and every well-formed entry of the batch is accepted and buffered. The code: the two
  malformed entries in front of the 201 readings are counted as rejected and nothing is
  raised, and the 201 readings are counted as accepted; the record of the first
  well-formed entry (the entry at index 2) is neither in the buffer nor in a file.
\<close>

theorem malformed_batch_drops_well_formed:
  "ingest_batch init mixed_batch
   = (Return (201, 2),
      \<lparr>write_buffer = [], write_lock = False,
       files = [file_path ''2024-01-15'' \<mapsto>
                  replicate 200 (stored ''device_a'' ''u1'' ''2024-01-15T10:00:00Z'' 61 ''2024-01-15'')]\<rparr>)
   \<and> make_record (mixed_batch ! 2) = Inr (stored ''device_a'' ''u0'' ''2024-01-15T10:00:00Z'' 60 ''2024-01-15'')"
proof -
  have recs: "accepted_records mixed_batch
   = stored ''device_a'' ''u0'' ''2024-01-15T10:00:00Z'' 60 ''2024-01-15''
     # replicate 200 (stored ''device_a'' ''u1'' ''2024-01-15T10:00:00Z'' 61 ''2024-01-15'')"
    unfolding mixed_batch_def accepted_records_Cons
    by (simp add: make_record_malformed accepted_records_overflow_batch)
  have "length mixed_batch = 203" by (simp add: mixed_batch_def overflow_batch_def)
  then have 1: "ingest_batch init mixed_batch
   = (Return (201, 2),
      \<lparr>write_buffer = [], write_lock = False,
       files = [file_path ''2024-01-15'' \<mapsto>
                  replicate 200 (stored ''device_a'' ''u1'' ''2024-01-15T10:00:00Z'' 61 ''2024-01-15'')]\<rparr>)"
    using ingest_batch_init_overflow[OF recs] by (simp add: stored_def)
  have 2: "make_record (mixed_batch ! 2) = Inr (stored ''device_a'' ''u0'' ''2024-01-15T10:00:00Z'' 60 ''2024-01-15'')"
    by (simp add: mixed_batch_def overflow_batch_def make_record_u0)
  show ?thesis using 1 2 by blast
qed

subsection \<open>Order and format of the result\<close>



subsection \<open>The time range\<close>

text \<open>
  C8. The claim: a stored reading is a candidate exactly when its timestamp lies in
  \<open>[start, end]\<close>, the strings being compared after the \<open>Z\<close> and offset forms are
  normalised, so that \<open>Z\<close> and \<open>+00:00\<close> name the same instant. The code: the filter
  compares the stored string with the bounds as they were given. A reading stored as
  \<open>2024-01-15T10:00:00Z\<close> is not collected by a query that ends at
  \<open>2024-01-15T10:00:00+00:00\<close>, the same instant, and is collected by the query that
  ends at \<open>2024-01-15T10:00:00Z\<close>.
\<close>

theorem range_filter_compares_raw_strings:
  "fromisoformat (py_replace_Z ''2024-01-15T10:00:00Z'')
     = fromisoformat (py_replace_Z ''2024-01-15T10:00:00+00:00'')
   \<and> filtered_df (flushed (ingest_all init [(''device_a'', ''user_1'', ''2024-01-15T10:00:00Z'', 75)]))
        ''user_1'' ''2024-01-15T09:00:00+00:00'' ''2024-01-15T10:00:00+00:00'' None = Inr []
   \<and> filtered_df (flushed (ingest_all init [(''device_a'', ''user_1'', ''2024-01-15T10:00:00Z'', 75)]))
        ''user_1'' ''2024-01-15T09:00:00Z'' ''2024-01-15T10:00:00Z'' None
       = Inr [stored ''device_a'' ''user_1'' ''2024-01-15T10:00:00Z'' 75 ''2024-01-15'']"
  by code_simp

subsection \<open>Determinism of a query\<close>



subsection \<open>Ingestion with an unparseable timestamp\<close>

text \<open>
  C10. When the timestamp argument of \<open>ingest_metric\<close> does not parse (after every \<open>Z\<close>
  has been replaced by \<open>+00:00\<close>), the call raises \<open>ValueError\<close> and leaves the whole
  object as it was: the lock is not taken, and the write buffer and every partition file
  are unchanged.
\<close>

theorem ingest_metric_unparseable:
  assumes "fromisoformat (py_replace_Z ts) = None"
  shows "ingest_metric st dev usr ts hr = (Raise ValueError, st)"
  using assms by (simp add: ingest_metric_def)

theorem ingest_metric_unparseable_witness:
  "fromisoformat (py_replace_Z ''invalid-timestamp'') = None
   \<and> ingest_metric init ''device_a'' ''user_123'' ''invalid-timestamp'' 75 = (Raise ValueError, init)"
proof -
  have h: "fromisoformat (py_replace_Z ''invalid-timestamp'') = None"
    by (simp add: fromisoformat_def py_replace_Z_def)
  show ?thesis
    using h ingest_metric_unparseable [OF h, of init "''device_a''" "''user_123''" 75] by simp
qed

end
